theory Spec2Isabelle
  imports Main
begin

section \<open>Go strings and the library functions the database package calls\<close>

text \<open>
  A Go string is a sequence of bytes; \<^typ>\<open>string\<close> (a list of 8-bit characters) is
  that sequence. The functions of package \<open>strings\<close> that \<open>pkg/database\<close> calls read
  the bytes as UTF-8, one rune at a time, so the decoder is modelled first. A rune is a
  code point, a natural number.
\<close>

type_synonym rune = nat

definition RuneError :: rune where
  "RuneError = 0xFFFD"

text \<open>
  \<open>utf8.DecodeRuneInString\<close>: the rune at the head of the string and its width in bytes.
  A byte that starts no well-formed sequence decodes as \<open>(RuneError, 1)\<close>; the empty
  string as \<open>(RuneError, 0)\<close>. Overlong forms, surrogates and values above U+10FFFF are
  rejected by the range of the second byte, as in Go's \<open>acceptRanges\<close>. For a lead
  byte \<open>b0\<close> in 0xC2..0xF4, \<open>lead_size b0\<close> is the length of the sequence it announces
  and \<open>accept_lo b0\<close>..\<open>accept_hi b0\<close> the range of its second byte.
\<close>

definition lead_size :: "nat \<Rightarrow> nat" where
  "lead_size b0 = (if b0 < 0xE0 then 2 else if b0 < 0xF0 then 3 else 4)"

definition accept_lo :: "nat \<Rightarrow> nat" where
  "accept_lo b0 = (if b0 = 0xE0 then 0xA0 else if b0 = 0xF0 then 0x90 else 0x80)"

definition accept_hi :: "nat \<Rightarrow> nat" where
  "accept_hi b0 = (if b0 = 0xED then 0x9F else if b0 = 0xF4 then 0x8F else 0xBF)"

fun DecodeRuneInString :: "string \<Rightarrow> rune \<times> nat" where
  "DecodeRuneInString [] = (RuneError, 0)"
| "DecodeRuneInString (c0 # s) =
     (let b0 = (of_char c0 :: nat) in
      if b0 < 0x80 then (b0, 1)
      else if b0 < 0xC2 \<or> 0xF4 < b0 then (RuneError, 1)
      else
        let sz = lead_size b0 in
        if Suc (length s) < sz then (RuneError, 1)
        else
          let b1 = (of_char (s ! 0) :: nat) in
          if b1 < accept_lo b0 \<or> accept_hi b0 < b1 then (RuneError, 1)
          else if sz \<le> 2 then ((b0 mod 32) * 64 + b1 mod 64, 2)
          else
            let b2 = (of_char (s ! 1) :: nat) in
            if b2 < 0x80 \<or> 0xBF < b2 then (RuneError, 1)
            else if sz \<le> 3 then ((b0 mod 16) * 4096 + (b1 mod 64) * 64 + b2 mod 64, 3)
            else
              let b3 = (of_char (s ! 2) :: nat) in
              if b3 < 0x80 \<or> 0xBF < b3 then (RuneError, 1)
              else ((b0 mod 8) * 262144 + (b1 mod 64) * 4096 + (b2 mod 64) * 64 + b3 mod 64, 4))"

text \<open>
  What a \<open>for _, c := range s\<close> loop sees: each rune with the bytes it was decoded from.
  The width of a rune at the head of a non-empty string is between 1 and 4, so the rest
  is shorter.
\<close>

fun runes :: "string \<Rightarrow> (rune \<times> string) list" where
  "runes [] = []"
| "runes (c # s) =
     (let n = snd (DecodeRuneInString (c # s)) - 1
      in (fst (DecodeRuneInString (c # s)), c # take n s) # runes (drop n s))"

text \<open>\<open>utf8.AppendRune\<close>: the UTF-8 encoding of a rune; an invalid rune is written as U+FFFD.\<close>

definition EncodeRune :: "rune \<Rightarrow> string" where
  "EncodeRune r =
     (if r \<le> 0x7F then [char_of r]
      else if r \<le> 0x7FF then [char_of (0xC0 + r div 64), char_of (0x80 + r mod 64)]
      else if 0x10FFFF < r \<or> (0xD800 \<le> r \<and> r \<le> 0xDFFF)
        then [char_of (0xEF :: nat), char_of (0xBF :: nat), char_of (0xBD :: nat)]
      else if r \<le> 0xFFFF
        then [char_of (0xE0 + r div 4096), char_of (0x80 + (r div 64) mod 64),
              char_of (0x80 + r mod 64)]
      else [char_of (0xF0 + r div 262144), char_of (0x80 + (r div 4096) mod 64),
            char_of (0x80 + (r div 64) mod 64), char_of (0x80 + r mod 64)])"


text \<open>
  The case tables of package \<open>unicode\<close> for the runes above ASCII belong to the Go
  distribution, not to this repository; they are a parameter of the model. On ASCII
  \<open>unicode.ToUpper\<close> and \<open>unicode.ToLower\<close> are written out.
\<close>

record case_tables =
  upper_table :: "rune \<Rightarrow> rune"
  lower_table :: "rune \<Rightarrow> rune"


definition ToLower_rune :: "case_tables \<Rightarrow> rune \<Rightarrow> rune" where
  "ToLower_rune T r =
     (if r \<le> 0x7F then (if 0x41 \<le> r \<and> r \<le> 0x5A then r + 0x20 else r)
      else lower_table T r)"


definition ToLower :: "case_tables \<Rightarrow> string \<Rightarrow> string" where
  "ToLower T s = concat (map (\<lambda>seg. EncodeRune (ToLower_rune T (fst seg))) (runes s))"




text \<open>\<open>strings.HasPrefix\<close>: \<open>len(s) >= len(prefix) && s[:len(prefix)] == prefix\<close>.\<close>

definition HasPrefix :: "string \<Rightarrow> string \<Rightarrow> bool" where
  "HasPrefix s pre = (length pre \<le> length s \<and> take (length pre) s = pre)"

section \<open>Errors, values and the SQL connection\<close>

text \<open>
  A Go \<open>error\<close>. \<open>sql.ErrNoRows\<close> is the one sentinel the package compares against;
  every other error is opaque to it and carries its message.
\<close>

datatype error = ErrNoRows | Err string

text \<open>
  The dynamically typed values (\<open>interface{}\<close>) that \<open>rows.Scan\<close> stores and that the
  package puts into its \<open>map[string]interface{}\<close> rows. A float is kept as its 64 bits;
  the package never computes with one.
\<close>

datatype gval = VNil | VInt int | VFloat nat | VString string | VBytes string

type_synonym row = "string \<rightharpoonup> gval"

text \<open>
  \<open>*sql.Rows\<close>, as far as the package observes it: the result of \<open>Columns()\<close>, the rows
  that \<open>Next()\<close> yields before it returns false, the error \<open>Err()\<close> reports then, and the
  result of \<open>Close()\<close>.
\<close>

record cursor =
  cur_columns :: "error + string list"
  cur_rows :: "gval list list"
  cur_err :: "error option"
  cur_close :: "error option"

text \<open>
  The SQL engine (package \<open>database/sql\<close> over the \<open>modernc.org/sqlite\<close> driver) is not
  part of the repository. It is a parameter: a record of the operations the package
  calls, over a connection handle \<open>'c\<close> and the engine's state \<open>'s\<close>. \<open>Exec\<close> returns only
  its error, since every caller discards the \<open>sql.Result\<close>. \<open>scan_int\<close> and \<open>scan_string\<close>
  are the conversions \<open>Scan\<close> applies when the destination is an \<open>*int\<close> or a \<open>*string\<close>.
\<close>

record ('c, 's) driver =
  sql_Open :: "string \<Rightarrow> string \<Rightarrow> 's \<Rightarrow> (error + 'c) \<times> 's"
  conn_Ping :: "'c \<Rightarrow> 's \<Rightarrow> error option \<times> 's"
  conn_Exec :: "'c \<Rightarrow> string \<Rightarrow> 's \<Rightarrow> error option \<times> 's"
  conn_Query :: "'c \<Rightarrow> string \<Rightarrow> 's \<Rightarrow> (error + cursor) \<times> 's"
  conn_Close :: "'c \<Rightarrow> 's \<Rightarrow> error option \<times> 's"
  scan_int :: "gval \<Rightarrow> error + int"
  scan_string :: "gval \<Rightarrow> error + string"

text \<open>
  What the package reads and changes outside itself: the environment, the files
  (\<open>os.ReadFile\<close> per path), the paths read so far, standard output, and the engine's
  state.
\<close>

record 's world =
  environ :: "string \<rightharpoonup> string"
  files :: "string \<Rightarrow> error + string"
  reads :: "string list"
  stdout :: string
  sql :: 's

definition Getenv :: "'s world \<Rightarrow> string \<Rightarrow> string" where
  "Getenv w key = (case environ w key of None \<Rightarrow> [] | Some v \<Rightarrow> v)"

definition ReadFile :: "string \<Rightarrow> 's world \<Rightarrow> (error + string) \<times> 's world" where
  "ReadFile path w = (files w path, w\<lparr>reads := reads w @ [path]\<rparr>)"

definition Printf_query :: "string \<Rightarrow> 's world \<Rightarrow> 's world" where
  "Printf_query query w =
     w\<lparr>stdout := stdout w @ ''Executing query: '' @ query @ [CHR 0x0A]\<rparr>"

text \<open>
  \<open>type Database struct { conn *sql.DB }\<close>. A \<open>*Database\<close> is an option of it (\<open>None\<close> is
  the nil pointer), and so is the \<open>conn\<close> field.
\<close>

record 'c Database =
  conn :: "'c option"

text \<open>
  A method that dereferences a nil \<open>*Database\<close> or calls into a nil \<open>*sql.DB\<close> panics;
  the model returns \<open>Panic\<close> there.
\<close>

datatype 'a outcome = Panic | Ret 'a

section \<open>seed.go\<close>

definition SeedFromFile ::
  "('c, 's) driver \<Rightarrow> 'c Database option \<Rightarrow> string \<Rightarrow> 's world \<Rightarrow> error option \<times> 's world"
where
  "SeedFromFile drv db path w =
     (case db of
        None \<Rightarrow> (None, w)
      | Some d \<Rightarrow>
          (case conn d of
             None \<Rightarrow> (None, w)
           | Some c \<Rightarrow>
               (case ReadFile path w of
                  (Inl err, w1) \<Rightarrow> (Some err, w1)
                | (Inr b, w1) \<Rightarrow>
                    (case conn_Exec drv c b (sql w1) of
                       (err, s) \<Rightarrow> (err, w1\<lparr>sql := s\<rparr>)))))"

definition AutoSeedFromEnv ::
  "('c, 's) driver \<Rightarrow> case_tables \<Rightarrow> 'c Database option \<Rightarrow> 's world \<Rightarrow> error option \<times> 's world"
where
  "AutoSeedFromEnv drv T db w =
     (let val = Getenv w ''DB_AUTO_SEED'' in
      if val = ''1'' \<or> ToLower T val = ''true'' then
        (let path = Getenv w ''DB_SEED_FILE'';
             path = (if path = [] then ''pkg/database/seed.sql'' else path)
         in SeedFromFile drv db path w)
      else (None, w))"

section \<open>database.go\<close>

definition TAB :: char where
  "TAB = CHR 0x09"

definition ln :: "nat \<Rightarrow> string \<Rightarrow> string" where
  "ln n s = replicate n TAB @ s @ [CHR 0x0A]"

text \<open>The package variable \<open>schemaEmbedded\<close> (a raw string literal; no function reads it).\<close>

definition schemaEmbedded :: string where
  "schemaEmbedded = concat
    [ln 0 [],
     ln 0 ''CREATE TABLE IF NOT EXISTS users ('',
     ln 1 ''id INTEGER PRIMARY KEY AUTOINCREMENT,'',
     ln 1 ''username TEXT NOT NULL UNIQUE,'',
     ln 1 ''email TEXT,'',
     ln 1 ''password TEXT'',
     ln 0 '');'',
     ln 0 [],
     ln 0 ''CREATE TABLE IF NOT EXISTS products ('',
     ln 1 ''id INTEGER PRIMARY KEY AUTOINCREMENT,'',
     ln 1 ''name TEXT,'',
     ln 1 ''description TEXT,'',
     ln 1 ''price REAL,'',
     ln 1 ''category TEXT'',
     ln 0 '');'',
     ln 0 [],
     ln 0 ''CREATE TABLE IF NOT EXISTS orders ('',
     ln 1 ''id INTEGER PRIMARY KEY AUTOINCREMENT,'',
     ln 1 ''user_id INTEGER,'',
     ln 1 ''product_id INTEGER,'',
     ln 1 ''quantity INTEGER,'',
     ln 1 ''total_price REAL,'',
     ln 1 ''status TEXT,'',
     ln 1 ''created_at TEXT,'',
     ln 1 ''user_snapshot TEXT,'',
     ln 1 ''product_snapshot TEXT'',
     ln 0 '');'']"

text \<open>
  The local literal \<open>embedded\<close> of \<open>NewDatabase\<close>, the schema used when the file cannot
  be read.
\<close>

definition embedded :: string where
  "embedded = concat
    [ln 0 [],
     ln 2 ''CREATE TABLE IF NOT EXISTS users ('',
     ln 3 ''id INTEGER PRIMARY KEY AUTOINCREMENT,'',
     ln 3 ''username TEXT NOT NULL UNIQUE,'',
     ln 3 ''email TEXT,'',
     ln 3 ''password TEXT'',
     ln 2 '');'',
     ln 0 [],
     ln 2 ''CREATE TABLE IF NOT EXISTS products ('',
     ln 3 ''id INTEGER PRIMARY KEY AUTOINCREMENT,'',
     ln 3 ''name TEXT,'',
     ln 3 ''description TEXT,'',
     ln 3 ''price REAL,'',
     ln 3 ''category TEXT'',
     ln 2 '');'',
     ln 0 [],
     ln 2 ''CREATE TABLE IF NOT EXISTS orders ('',
     ln 3 ''id INTEGER PRIMARY KEY AUTOINCREMENT,'',
     ln 3 ''user_id INTEGER,'',
     ln 3 ''product_id INTEGER,'',
     ln 3 ''quantity INTEGER,'',
     ln 3 ''total_price REAL,'',
     ln 3 ''status TEXT,'',
     ln 3 ''created_at TEXT,'',
     ln 3 ''user_snapshot TEXT,'',
     ln 3 ''product_snapshot TEXT'',
     ln 2 '');''] @ replicate 2 TAB"

text \<open>
  \<open>NewDatabase(host, user, password string, port int)\<close>. Every failure after the
  connection is open closes it (the result of that \<open>Close\<close> is dropped) and returns the
  error with a nil \<open>*Database\<close>.
\<close>

definition NewDatabase ::
  "('c, 's) driver \<Rightarrow> case_tables \<Rightarrow> string \<Rightarrow> string \<Rightarrow> string \<Rightarrow> int \<Rightarrow> 's world
     \<Rightarrow> ('c Database option \<times> error option) \<times> 's world"
where
  "NewDatabase drv T host user password port w =
     (case sql_Open drv ''sqlite'' ''file::memory:?cache=shared'' (sql w) of
        (Inl err, s1) \<Rightarrow> ((None, Some err), w\<lparr>sql := s1\<rparr>)
      | (Inr c, s1) \<Rightarrow>
          (case conn_Ping drv c s1 of
             (Some err, s2) \<Rightarrow> ((None, Some err), w\<lparr>sql := snd (conn_Close drv c s2)\<rparr>)
           | (None, s2) \<Rightarrow>
               (let db = \<lparr>conn = Some c\<rparr>;
                    schemaPath = Getenv w ''DB_SCHEMA_FILE'';
                    schemaPath = (if schemaPath = [] then ''pkg/database/schema.sql'' else schemaPath);
                    (rd, w1) = ReadFile schemaPath (w\<lparr>sql := s2\<rparr>);
                    schemaBytes = (case rd of Inl err \<Rightarrow> embedded | Inr b \<Rightarrow> b)
                in
                case conn_Exec drv c schemaBytes (sql w1) of
                  (Some err, s3) \<Rightarrow> ((None, Some err), w1\<lparr>sql := snd (conn_Close drv c s3)\<rparr>)
                | (None, s3) \<Rightarrow>
                    (case AutoSeedFromEnv drv T (Some db) (w1\<lparr>sql := s3\<rparr>) of
                       (Some err, w2) \<Rightarrow>
                         ((None, Some err), w2\<lparr>sql := snd (conn_Close drv c (sql w2))\<rparr>)
                     | (None, w2) \<Rightarrow> ((Some db, None), w2)))))"

text \<open>\<open>Close\<close>: nothing for a nil receiver or a nil connection.\<close>

definition Close ::
  "('c, 's) driver \<Rightarrow> 'c Database option \<Rightarrow> 's world \<Rightarrow> error option \<times> 's world"
where
  "Close drv db w =
     (case db of
        None \<Rightarrow> (None, w)
      | Some d \<Rightarrow>
          (case conn d of
             None \<Rightarrow> (None, w)
           | Some c \<Rightarrow> (case conn_Close drv c (sql w) of (err, s) \<Rightarrow> (err, w\<lparr>sql := s\<rparr>))))"


text \<open>
  \<open>rows.Scan(colsDataPtr...)\<close> with one \<open>*interface{}\<close> destination per column: the
  values of the current row, stored as they are. \<open>Scan\<close> fails when the number of
  destinations is not the number of values in the row.
\<close>

definition rows_Scan :: "nat \<Rightarrow> gval list \<Rightarrow> error + gval list" where
  "rows_Scan ndest vals =
     (if length vals \<noteq> ndest then Inl (Err ''sql: wrong number of destination arguments in Scan'')
      else Inr vals)"





text \<open>
  \<open>conn.QueryRow(query).Scan(&id, &uname, &email, &password)\<close> of package \<open>database/sql\<close>:
  the error of the query if it failed; \<open>sql.ErrNoRows\<close> if the first \<open>Next()\<close> is false
  and the rows report no error; else the first row converted into the four
  destinations, and then the result of closing the rows.
\<close>

definition Row_Scan ::
  "('c, 's) driver \<Rightarrow> error + cursor \<Rightarrow> error + (int \<times> string \<times> string \<times> string)"
where
  "Row_Scan drv r =
     (case r of
        Inl err \<Rightarrow> Inl err
      | Inr rows \<Rightarrow>
          (case cur_rows rows of
             [] \<Rightarrow> (case cur_err rows of Some err \<Rightarrow> Inl err | None \<Rightarrow> Inl ErrNoRows)
           | vals # rest \<Rightarrow>
               (case rows_Scan 4 vals of
                  Inl err \<Rightarrow> Inl err
                | Inr dest \<Rightarrow>
                    (case scan_int drv (dest ! 0) of
                       Inl err \<Rightarrow> Inl err
                     | Inr id' \<Rightarrow>
                         (case scan_string drv (dest ! 1) of
                            Inl err \<Rightarrow> Inl err
                          | Inr uname \<Rightarrow>
                              (case scan_string drv (dest ! 2) of
                                 Inl err \<Rightarrow> Inl err
                               | Inr email \<Rightarrow>
                                   (case scan_string drv (dest ! 3) of
                                      Inl err \<Rightarrow> Inl err
                                    | Inr password \<Rightarrow>
                                        (case cur_close rows of
                                           Some err \<Rightarrow> Inl err
                                         | None \<Rightarrow> Inr (id', uname, email, password)))))))))"

definition user_map :: "int \<Rightarrow> string \<Rightarrow> string \<Rightarrow> string \<Rightarrow> row" where
  "user_map id' username email password =
     [''id'' \<mapsto> VInt id', ''username'' \<mapsto> VString username,
      ''email'' \<mapsto> VString email, ''password'' \<mapsto> VString password]"

definition GetUserByUsername ::
  "('c, 's) driver \<Rightarrow> 'c Database option \<Rightarrow> string \<Rightarrow> 's world
     \<Rightarrow> ((row option \<times> error option) \<times> 's world) outcome"
where
  "GetUserByUsername drv db username w =
     (let query = ''SELECT id, username, email, password FROM users WHERE username = '' @ [CHR 0x27]
                    @ username @ [CHR 0x27];
          w0 = Printf_query query w
      in
      case db of
        None \<Rightarrow> Panic
      | Some d \<Rightarrow>
          (case conn d of
             None \<Rightarrow> Panic
           | Some c \<Rightarrow>
               (case conn_Query drv c query (sql w0) of
                  (r, s) \<Rightarrow>
                    Ret
                      ((case Row_Scan drv r of
                          Inl err \<Rightarrow>
                            if err = ErrNoRows then
                              (let hashedPassword = ''482c811da5d5b4bc6d497ffa98491e38''
                               in (Some (user_map 1 username ''user@example.com'' hashedPassword), None))
                            else (None, Some err)
                        | Inr (id', uname, email, password) \<Rightarrow>
                            (Some (user_map id' uname email password), None)),
                       w0\<lparr>sql := s\<rparr>))))"

text \<open>
  \<open>fmt.Sprintf\<close> for a format whose only verb is \<open>%s\<close> and whose operands are strings, one
  per verb: each \<open>%s\<close> is replaced by its operand, byte for byte. Any other directive,
  and a number of operands different from the number of verbs, is outside the model
  (\<open>None\<close>); the package has no such call.
\<close>

fun Sprintf :: "string \<Rightarrow> string list \<Rightarrow> string option" where
  "Sprintf [] [] = Some []"
| "Sprintf [] (a # args) = None"
| "Sprintf (c # fmt) args =
     (if c \<noteq> CHR ''%'' then map_option ((#) c) (Sprintf fmt args)
      else
        (case fmt of
           [] \<Rightarrow> None
         | v # fmt' \<Rightarrow>
             if v = CHR ''s'' then
               (case args of
                  [] \<Rightarrow> None
                | a # args' \<Rightarrow> map_option ((@) a) (Sprintf fmt' args'))
             else None))"

definition CreateUser_format :: string where
  "CreateUser_format =
     ''INSERT INTO users (username, email, password) VALUES ('' @ [CHR 0x27] @ ''%s'' @ [CHR 0x27]
       @ '', '' @ [CHR 0x27] @ ''%s'' @ [CHR 0x27] @ '', '' @ [CHR 0x27] @ ''%s'' @ [CHR 0x27] @ '')''"

definition CreateUser ::
  "('c, 's) driver \<Rightarrow> 'c Database option \<Rightarrow> string \<Rightarrow> string \<Rightarrow> string \<Rightarrow> 's world
     \<Rightarrow> (error option \<times> 's world) outcome"
where
  "CreateUser drv db username email password w =
     (case Sprintf CreateUser_format [username, email, password] of
        None \<Rightarrow> Panic
      | Some query \<Rightarrow>
          (let w0 = Printf_query query w in
           case db of
             None \<Rightarrow> Panic
           | Some d \<Rightarrow>
               (case conn d of
                  None \<Rightarrow> Panic
                | Some c \<Rightarrow>
                    (case conn_Exec drv c query (sql w0) of
                       (err, s) \<Rightarrow> Ret (err, w0\<lparr>sql := s\<rparr>)))))"

section \<open>The classification of statements and flags, in the specification's words\<close>




definition equal_fold_lower :: "case_tables \<Rightarrow> string \<Rightarrow> string \<Rightarrow> bool" where
  "equal_fold_lower T s kw =
     (map (ToLower_rune T) (map fst (runes s)) = map (ToLower_rune T) (map fst (runes kw)))"


definition truthy :: "case_tables \<Rightarrow> string \<Rightarrow> bool" where
  "truthy T val = (val = ''1'' \<or> equal_fold_lower T val ''true'')"

text \<open>The path of the schema file and of the seed file, as the constructor resolves them.\<close>

definition schema_path :: "'s world \<Rightarrow> string" where
  "schema_path w =
     (if Getenv w ''DB_SCHEMA_FILE'' = [] then ''pkg/database/schema.sql''
      else Getenv w ''DB_SCHEMA_FILE'')"

definition seed_path :: "'s world \<Rightarrow> string" where
  "seed_path w =
     (if Getenv w ''DB_SEED_FILE'' = [] then ''pkg/database/seed.sql''
      else Getenv w ''DB_SEED_FILE'')"



section \<open>UTF-8 decoding, encoding and trimming\<close>


definition decode_tail :: "nat \<Rightarrow> string \<Rightarrow> rune \<times> nat" where
  "decode_tail b0 s =
     (if Suc (length s) < lead_size b0 then (RuneError, 1)
      else if of_char (s ! 0) < accept_lo b0 \<or> accept_hi b0 < (of_char (s ! 0) :: nat) then (RuneError, 1)
      else if lead_size b0 \<le> 2 then ((b0 mod 32) * 64 + of_char (s ! 0) mod 64, 2)
      else if of_char (s ! 1) < (0x80 :: nat) \<or> 0xBF < (of_char (s ! 1) :: nat) then (RuneError, 1)
      else if lead_size b0 \<le> 3
        then ((b0 mod 16) * 4096 + (of_char (s ! 0) mod 64) * 64 + of_char (s ! 1) mod 64, 3)
      else if of_char (s ! 2) < (0x80 :: nat) \<or> 0xBF < (of_char (s ! 2) :: nat) then (RuneError, 1)
      else ((b0 mod 8) * 262144 + (of_char (s ! 0) mod 64) * 4096 + (of_char (s ! 1) mod 64) * 64
              + of_char (s ! 2) mod 64, 4))"

lemma decode_unfold:
  "DecodeRuneInString (c # s) =
     (if (of_char c :: nat) < 0x80 then (of_char c, 1)
      else if (of_char c :: nat) < 0xC2 \<or> 0xF4 < (of_char c :: nat) then (RuneError, 1)
      else decode_tail (of_char c) s)"
  by (simp add: Let_def decode_tail_def)


lemma decode_tail_width_pos: "1 \<le> snd (decode_tail b0 s)"
  by (simp add: decode_tail_def)






lemma decode_width_pos: "s \<noteq> [] \<Longrightarrow> 1 \<le> snd (DecodeRuneInString s)"
  using decode_tail_width_pos by (cases s) (simp_all add: decode_unfold del: DecodeRuneInString.simps(2))


lemma runes_Cons:
  "runes (c # s) =
     (fst (DecodeRuneInString (c # s)), c # take (snd (DecodeRuneInString (c # s)) - 1) s)
       # runes (drop (snd (DecodeRuneInString (c # s)) - 1) s)"
  by (simp add: Let_def del: DecodeRuneInString.simps(2))

declare runes.simps(2) [simp del]
declare DecodeRuneInString.simps(2) [simp del]




lemma EncodeRune_ascii: "r \<le> 0x7F \<Longrightarrow> EncodeRune r = [char_of r]"
  by (simp add: EncodeRune_def)

lemma char_of_eq_ascii:
  assumes "r \<le> 0x7F"
  shows "(char_of r = c) = (r = (of_char c :: nat))"
proof
  assume "char_of r = c"
  then have "(of_char c :: nat) = r mod 256"
    by (metis of_char_of)
  then show "r = of_char c"
    using assms by simp
next
  assume "r = of_char c"
  then show "char_of r = c"
    by simp
qed

lemma first_byte_high:
  assumes "128 \<le> x" and "x < (256 :: nat)"
  shows "0x80 \<le> (of_char (char_of x) :: nat)"
  using assms by simp

lemma EncodeRune_high:
  assumes "\<not> r \<le> 0x7F"
  shows "\<exists>b bs. EncodeRune r = b # bs \<and> 0x80 \<le> (of_char b :: nat)"
proof -
  consider (two) "r \<le> 0x7FF"
    | (bad) "\<not> r \<le> 0x7FF" "0x10FFFF < r \<or> (0xD800 \<le> r \<and> r \<le> 0xDFFF)"
    | (three) "\<not> r \<le> 0x7FF" "\<not> (0x10FFFF < r \<or> (0xD800 \<le> r \<and> r \<le> 0xDFFF))" "r \<le> 0xFFFF"
    | (four) "\<not> r \<le> 0x7FF" "\<not> (0x10FFFF < r \<or> (0xD800 \<le> r \<and> r \<le> 0xDFFF))" "\<not> r \<le> 0xFFFF"
    by blast
  then show ?thesis
  proof cases
    case two
    have "0xC0 + r div 64 < (256 :: nat)" using two by simp
    then have "0x80 \<le> (of_char (char_of (0xC0 + r div 64)) :: nat)" by simp
    then show ?thesis using assms two by (simp add: EncodeRune_def)
  next
    case bad
    then show ?thesis using assms by (simp add: EncodeRune_def)
  next
    case three
    have "0xE0 + r div 4096 < (256 :: nat)" using three by simp
    then have "0x80 \<le> (of_char (char_of (0xE0 + r div 4096)) :: nat)" by simp
    then show ?thesis using assms three by (simp add: EncodeRune_def)
  next
    case four
    have "0xF0 + r div 262144 < (256 :: nat)" using four by simp
    then have "0x80 \<le> (of_char (char_of (0xF0 + r div 262144)) :: nat)" by simp
    then show ?thesis using assms four by (simp add: EncodeRune_def)
  qed
qed

definition ascii :: "string \<Rightarrow> bool" where
  "ascii p = list_all (\<lambda>c. (of_char c :: nat) < 0x80) p"

lemma encode_head:
  assumes "(of_char c :: nat) < 0x80"
  shows "(EncodeRune r @ rest = c # tl') = (r = of_char c \<and> rest = tl')"
proof (cases "r \<le> 0x7F")
  case True
  then show ?thesis
    by (simp add: EncodeRune_ascii char_of_eq_ascii)
next
  case False
  from EncodeRune_high [OF False] obtain b bs
    where e: "EncodeRune r = b # bs" and h: "0x80 \<le> (of_char b :: nat)"
    by blast
  have "b \<noteq> c" using h assms by auto
  moreover have "r \<noteq> of_char c" using False assms by simp
  ultimately show ?thesis by (simp add: e)
qed

lemma encode_nonempty: "EncodeRune r \<noteq> []"
  by (cases "r \<le> 0x7F") (use EncodeRune_high [of r] in \<open>auto simp: EncodeRune_ascii\<close>)

lemma concat_encode_eq_ascii:
  "ascii p \<Longrightarrow> (concat (map EncodeRune rs) = p) = (rs = map of_char p)"
proof (induction p arbitrary: rs)
  case Nil
  then show ?case by (cases rs) (simp_all add: encode_nonempty)
next
  case (Cons c p)
  then have c: "(of_char c :: nat) < 0x80" and p: "ascii p"
    by (simp_all add: ascii_def)
  show ?case
  proof (cases rs)
    case Nil
    then show ?thesis by simp
  next
    case (Cons r rs')
    then show ?thesis
      using Cons.IH [OF p, of rs'] by (auto simp: encode_head [OF c])
  qed
qed


lemma HasPrefix_Nil [simp]: "HasPrefix s []"
  by (simp add: HasPrefix_def)




lemma runes_true: "map fst (runes ''true'') = [0x74, 0x72, 0x75, 0x65]"
  by (simp add: runes_Cons decode_unfold)










section \<open>A concrete engine for running the model\<close>

text \<open>
  A small engine on which the definitions can be run: its state is the list of the
  statements it was given, in order; every statement succeeds, and every query returns
  the four user columns and no row.
\<close>

definition no_rows :: cursor where
  "no_rows = \<lparr>cur_columns = Inr [''id'', ''username'', ''email'', ''password''],
              cur_rows = [], cur_err = None, cur_close = None\<rparr>"

definition recorder :: "(unit, string list) driver" where
  "recorder =
     \<lparr>sql_Open = (\<lambda>name dsn s. (Inr (), s)),
      conn_Ping = (\<lambda>c s. (None, s)),
      conn_Exec = (\<lambda>c q s. (None, s @ [q])),
      conn_Query = (\<lambda>c q s. (Inr no_rows, s @ [q])),
      conn_Close = (\<lambda>c s. (None, s)),
      scan_int = (\<lambda>v. case v of VInt i \<Rightarrow> Inr i | _ \<Rightarrow> Inl (Err ''unsupported Scan'')),
      scan_string = (\<lambda>v. case v of VString x \<Rightarrow> Inr x | _ \<Rightarrow> Inl (Err ''unsupported Scan''))\<rparr>"




text \<open>A world with no environment variable set and no readable file.\<close>

definition bare_world :: "string list world" where
  "bare_world =
     \<lparr>environ = Map.empty, files = (\<lambda>path. Inl (Err ''no such file or directory'')),
      reads = [], stdout = [], sql = []\<rparr>"

definition ascii_tables :: case_tables where
  "ascii_tables = \<lparr>upper_table = (\<lambda>r. r), lower_table = (\<lambda>r. r)\<rparr>"

text \<open>
  The recorder with a list of statements that \<open>Exec\<close> rejects, and worlds in which
  seeding is switched on: one without a seed file, one with a seed file.
\<close>

definition rejecting :: "string list \<Rightarrow> (unit, string list) driver" where
  "rejecting bad =
     recorder\<lparr>conn_Exec :=
       (\<lambda>c q s. (if q \<in> set bad then Some (Err ''statement rejected'') else None, s @ [q]))\<rparr>"

definition seed_on_world :: "string list world" where
  "seed_on_world = bare_world\<lparr>environ := [''DB_AUTO_SEED'' \<mapsto> ''TRUE'']\<rparr>"

definition seed_sql :: string where
  "seed_sql = ''INSERT INTO users (username, email, password) VALUES (1);''"

definition seed_file_world :: "string list world" where
  "seed_file_world =
     bare_world\<lparr>environ := [''DB_AUTO_SEED'' \<mapsto> ''1'', ''DB_SEED_FILE'' \<mapsto> ''seed.sql''],
                files := (\<lambda>path. if path = ''seed.sql'' then Inr seed_sql
                                   else Inl (Err ''no such file or directory''))\<rparr>"

text \<open>The SQL texts of the two accessors, written as the plain concatenations.\<close>

definition CreateUser_query :: "string \<Rightarrow> string \<Rightarrow> string \<Rightarrow> string" where
  "CreateUser_query u e p =
     ''INSERT INTO users (username, email, password) VALUES ('' @ [CHR 0x27] @ u @ [CHR 0x27]
       @ '', '' @ [CHR 0x27] @ e @ [CHR 0x27] @ '', '' @ [CHR 0x27] @ p @ [CHR 0x27] @ '')''"

definition GetUser_query :: "string \<Rightarrow> string" where
  "GetUser_query u =
     ''SELECT id, username, email, password FROM users WHERE username = '' @ [CHR 0x27] @ u
       @ [CHR 0x27]"

section \<open>The query executor and the seed flag\<close>

lemma ToLower_true: "(ToLower T val = ''true'') = equal_fold_lower T val ''true''"
proof -
  have asc: "ascii ''true''"
    by (simp add: ascii_def)
  show ?thesis
    using concat_encode_eq_ascii [OF asc, of "map (ToLower_rune T) (map fst (runes val))"]
    by (simp add: ToLower_def equal_fold_lower_def runes_true ToLower_rune_def comp_def)
qed

lemma truthy_examples:
  "truthy T ''1'' \<and> truthy T ''true'' \<and> truthy T ''TRUE'' \<and> truthy T ''True'' \<and>
   \<not> truthy T [] \<and> \<not> truthy T ''0'' \<and> \<not> truthy T ''false'' \<and> \<not> truthy T ''yes''"
  by (simp add: truthy_def equal_fold_lower_def runes_Cons decode_unfold ToLower_rune_def)

lemma sql_Printf_query [simp]: "sql (Printf_query q w) = sql w"
  by (simp add: Printf_query_def)















section \<open>The convenience accessors\<close>

lemma Sprintf_lit:
  "c \<noteq> CHR ''%'' \<Longrightarrow> Sprintf (c # fmt) args = map_option ((#) c) (Sprintf fmt args)"
  by simp

lemma Sprintf_s:
  "Sprintf (CHR ''%'' # CHR ''s'' # fmt) (a # args) = map_option ((@) a) (Sprintf fmt args)"
  by simp

lemma Sprintf_CreateUser:
  "Sprintf CreateUser_format [u, e, p] = Some (CreateUser_query u e p)"
  by (simp del: Sprintf.simps
        add: CreateUser_format_def CreateUser_query_def Sprintf_lit Sprintf_s Sprintf.simps(1))

text \<open>
  C6. On a live connection \<open>c\<close>, \<open>CreateUser u e p\<close> prints and executes exactly the text
  \<open>INSERT INTO users (username, email, password) VALUES ('u', 'e', 'p')\<close> with the three
  strings copied in byte for byte, and \<open>GetUserByUsername u\<close> prints and queries exactly
  \<open>SELECT id, username, email, password FROM users WHERE username = 'u'\<close>: whatever the
  strings contain (quotes included), nothing is escaped, checked or passed as a
  parameter.
\<close>

theorem C6_accessors_pass_strings_verbatim:
  "CreateUser drv (Some \<lparr>conn = Some c\<rparr>) u e p w =
     Ret (fst (conn_Exec drv c (CreateUser_query u e p) (sql w)),
          (Printf_query (CreateUser_query u e p) w)
            \<lparr>sql := snd (conn_Exec drv c (CreateUser_query u e p) (sql w))\<rparr>) \<and>
   (\<exists>res. GetUserByUsername drv (Some \<lparr>conn = Some c\<rparr>) u w =
     Ret (res,
          (Printf_query (GetUser_query u) w)
            \<lparr>sql := snd (conn_Query drv c (GetUser_query u) (sql w))\<rparr>))"
  by (simp add: CreateUser_def Sprintf_CreateUser GetUserByUsername_def GetUser_query_def
        Let_def split: prod.splits)

text \<open>
  C2. When the query for \<open>u\<close> succeeds and yields no row, \<open>GetUserByUsername u\<close> returns
  the placeholder record (id 1, username \<open>u\<close>, email \<open>user@example.com\<close>, password
  \<open>482c811da5d5b4bc6d497ffa98491e38\<close>) with a nil error.
\<close>

theorem C2_placeholder_when_no_row:
  assumes "fst (conn_Query drv c (GetUser_query u) (sql w)) = Inr rows"
    and "cur_rows rows = []"
    and "cur_err rows = None"
  shows "\<exists>w'. GetUserByUsername drv (Some \<lparr>conn = Some c\<rparr>) u w =
           Ret ((Some [''id'' \<mapsto> VInt 1, ''username'' \<mapsto> VString u,
                       ''email'' \<mapsto> VString ''user@example.com'',
                       ''password'' \<mapsto> VString ''482c811da5d5b4bc6d497ffa98491e38''],
                 None), w')"
proof -
  obtain r s where qs: "conn_Query drv c (GetUser_query u) (sql w) = (r, s)"
    by (cases "conn_Query drv c (GetUser_query u) (sql w)")
  with assms(1) have r: "r = Inr rows"
    by simp
  show ?thesis
    using qs r assms(2,3)
    by (simp add: GetUserByUsername_def GetUser_query_def Row_Scan_def user_map_def Let_def)
qed

theorem C2_placeholder_witness:
  "fst (conn_Query recorder () (GetUser_query ''nobody'') (sql bare_world)) = Inr no_rows \<and>
   cur_rows no_rows = [] \<and> cur_err no_rows = None \<and>
   (\<exists>w'. GetUserByUsername recorder (Some \<lparr>conn = Some ()\<rparr>) ''nobody'' bare_world =
           Ret ((Some [''id'' \<mapsto> VInt 1, ''username'' \<mapsto> VString ''nobody'',
                       ''email'' \<mapsto> VString ''user@example.com'',
                       ''password'' \<mapsto> VString ''482c811da5d5b4bc6d497ffa98491e38''],
                 None), w'))"
proof -
  have q: "fst (conn_Query recorder () (GetUser_query ''nobody'') (sql bare_world)) = Inr no_rows"
    by (simp add: recorder_def)
  have r: "cur_rows no_rows = []" and e: "cur_err no_rows = None"
    by (simp_all add: no_rows_def)
  show ?thesis
    using q r e C2_placeholder_when_no_row [OF q r e] by simp
qed

section \<open>Properties of the constructor and of the nil checks\<close>

lemma Getenv_sql [simp]: "Getenv (w\<lparr>sql := s\<rparr>) = Getenv w"
  by (rule ext) (simp add: Getenv_def)

lemma Getenv_reads [simp]: "Getenv (w\<lparr>reads := r\<rparr>) = Getenv w"
  by (rule ext) (simp add: Getenv_def)

lemma seed_path_sql [simp]: "seed_path (w\<lparr>sql := s\<rparr>) = seed_path w"
  by (simp add: seed_path_def)

lemma seed_path_reads [simp]: "seed_path (w\<lparr>reads := r\<rparr>) = seed_path w"
  by (simp add: seed_path_def)

lemma AutoSeed_code: "AutoSeedFromEnv drv T db w =
     (if truthy T (Getenv w ''DB_AUTO_SEED'') then SeedFromFile drv db (seed_path w) w
      else (None, w))"
  by (simp add: AutoSeedFromEnv_def truthy_def ToLower_true seed_path_def Let_def)

lemma NewDatabase_after_ping:
  assumes "sql_Open drv ''sqlite'' ''file::memory:?cache=shared'' (sql w) = (Inr c, s1)"
    and "conn_Ping drv c s1 = (None, s2)"
  shows "NewDatabase drv T host user password port w =
     (let w1 = w\<lparr>reads := reads w @ [schema_path w], sql := s2\<rparr>;
          ddl = (case files w (schema_path w) of Inl e \<Rightarrow> embedded | Inr b \<Rightarrow> b)
      in case conn_Exec drv c ddl s2 of
           (Some err, s3) \<Rightarrow> ((None, Some err), w1\<lparr>sql := snd (conn_Close drv c s3)\<rparr>)
         | (None, s3) \<Rightarrow>
             (case AutoSeedFromEnv drv T (Some \<lparr>conn = Some c\<rparr>) (w1\<lparr>sql := s3\<rparr>) of
                (Some err, w2) \<Rightarrow> ((None, Some err), w2\<lparr>sql := snd (conn_Close drv c (sql w2))\<rparr>)
              | (None, w2) \<Rightarrow> ((Some \<lparr>conn = Some c\<rparr>, None), w2)))"
  using assms
  by (simp add: NewDatabase_def Let_def ReadFile_def schema_path_def Getenv_def
        split: prod.splits option.splits)

text \<open>
  C4. With the connection open and answering the ping: when the schema file cannot be
  read, the constructor executes the built-in literal instead and goes on (with seeding
  off it returns the adapter and a nil error); when executing the schema fails, it
  returns that error and no adapter; and when seeding is on, a seed file that cannot be
  read or whose execution fails makes it return that error and no adapter.
\<close>

theorem C4_constructor_failures:
  assumes "sql_Open drv ''sqlite'' ''file::memory:?cache=shared'' (sql w) = (Inr c, s1)"
    and "conn_Ping drv c s1 = (None, s2)"
  shows
    "(files w (schema_path w) = Inl e \<longrightarrow> conn_Exec drv c embedded s2 = (None, s3) \<longrightarrow>
        \<not> truthy T (Getenv w ''DB_AUTO_SEED'') \<longrightarrow>
        NewDatabase drv T host user password port w =
          ((Some \<lparr>conn = Some c\<rparr>, None), w\<lparr>reads := reads w @ [schema_path w], sql := s3\<rparr>)) \<and>
     (conn_Exec drv c (case files w (schema_path w) of Inl e \<Rightarrow> embedded | Inr b \<Rightarrow> b) s2
          = (Some err, s3) \<longrightarrow>
        fst (NewDatabase drv T host user password port w) = (None, Some err)) \<and>
     (conn_Exec drv c (case files w (schema_path w) of Inl e \<Rightarrow> embedded | Inr b \<Rightarrow> b) s2
          = (None, s3) \<longrightarrow>
        truthy T (Getenv w ''DB_AUTO_SEED'') \<longrightarrow> files w (seed_path w) = Inl err \<longrightarrow>
        fst (NewDatabase drv T host user password port w) = (None, Some err)) \<and>
     (conn_Exec drv c (case files w (schema_path w) of Inl e \<Rightarrow> embedded | Inr b \<Rightarrow> b) s2
          = (None, s3) \<longrightarrow>
        truthy T (Getenv w ''DB_AUTO_SEED'') \<longrightarrow> files w (seed_path w) = Inr b \<longrightarrow>
        conn_Exec drv c b s3 = (Some err, s4) \<longrightarrow>
        fst (NewDatabase drv T host user password port w) = (None, Some err))"
  by (auto simp add: NewDatabase_after_ping [OF assms] AutoSeed_code SeedFromFile_def ReadFile_def
      Let_def split: prod.splits option.splits sum.splits)


lemma embedded_neq_seed_sql: "seed_sql \<noteq> embedded"
  by (simp add: seed_sql_def embedded_def ln_def)

theorem C4_constructor_failures_witness:
  "sql_Open recorder ''sqlite'' ''file::memory:?cache=shared'' (sql bare_world) = (Inr (), []) \<and>
   conn_Ping recorder () [] = (None, []) \<and>
   NewDatabase recorder ascii_tables ''localhost'' ''user'' ''pass'' 5432 bare_world =
     ((Some \<lparr>conn = Some ()\<rparr>, None),
      bare_world\<lparr>reads := [''pkg/database/schema.sql''], sql := [embedded]\<rparr>) \<and>
   fst (NewDatabase (rejecting [embedded]) ascii_tables ''localhost'' ''user'' ''pass'' 5432 bare_world) =
     (None, Some (Err ''statement rejected'')) \<and>
   fst (NewDatabase recorder ascii_tables ''localhost'' ''user'' ''pass'' 5432 seed_on_world) =
     (None, Some (Err ''no such file or directory'')) \<and>
   fst (NewDatabase (rejecting [seed_sql]) ascii_tables ''localhost'' ''user'' ''pass'' 5432 seed_file_world) =
     (None, Some (Err ''statement rejected''))"
proof -
  have o1: "sql_Open recorder ''sqlite'' ''file::memory:?cache=shared'' (sql bare_world) = (Inr (), [])"
    and p1: "conn_Ping recorder () [] = (None, [])"
    by (simp_all add: recorder_def bare_world_def)
  have o2: "sql_Open (rejecting [embedded]) ''sqlite'' ''file::memory:?cache=shared'' (sql bare_world) = (Inr (), [])"
    and p2: "conn_Ping (rejecting [embedded]) () [] = (None, [])"
    by (simp_all add: rejecting_def recorder_def bare_world_def)
  have o3: "sql_Open recorder ''sqlite'' ''file::memory:?cache=shared'' (sql seed_on_world) = (Inr (), [])"
    by (simp add: recorder_def bare_world_def seed_on_world_def)
  have o4: "sql_Open (rejecting [seed_sql]) ''sqlite'' ''file::memory:?cache=shared'' (sql seed_file_world) = (Inr (), [])"
    and p4: "conn_Ping (rejecting [seed_sql]) () [] = (None, [])"
    by (simp_all add: rejecting_def recorder_def bare_world_def seed_file_world_def)
  have t1: "\<not> truthy ascii_tables (Getenv bare_world ''DB_AUTO_SEED'')"
    using truthy_examples [of ascii_tables] by (simp add: Getenv_def bare_world_def)
  have t3: "truthy ascii_tables (Getenv seed_on_world ''DB_AUTO_SEED'')"
    using truthy_examples [of ascii_tables] by (simp add: Getenv_def seed_on_world_def bare_world_def)
  have t4: "truthy ascii_tables (Getenv seed_file_world ''DB_AUTO_SEED'')"
    using truthy_examples [of ascii_tables] by (simp add: Getenv_def seed_file_world_def bare_world_def)
  note a = C4_constructor_failures [OF o1 p1, where e = "Err ''no such file or directory''"
      and ?s3.0 = "[embedded]" and T = ascii_tables and host = "''localhost''" and user = "''user''"
      and password = "''pass''" and port = 5432]
  note b = C4_constructor_failures [OF o2 p2, where err = "Err ''statement rejected''"
      and ?s3.0 = "[embedded]" and T = ascii_tables and host = "''localhost''" and user = "''user''"
      and password = "''pass''" and port = 5432]
  note c = C4_constructor_failures [OF o3 p1, where err = "Err ''no such file or directory''"
      and ?s3.0 = "[embedded]" and T = ascii_tables and host = "''localhost''" and user = "''user''"
      and password = "''pass''" and port = 5432]
  note d = C4_constructor_failures [OF o4 p4, where err = "Err ''statement rejected''"
      and ?s3.0 = "[embedded]" and b = seed_sql and ?s4.0 = "[embedded, seed_sql]" and T = ascii_tables and host = "''localhost''" and user = "''user''"
      and password = "''pass''" and port = 5432]
  have A: "NewDatabase recorder ascii_tables ''localhost'' ''user'' ''pass'' 5432 bare_world =
     ((Some \<lparr>conn = Some ()\<rparr>, None),
      bare_world\<lparr>reads := [''pkg/database/schema.sql''], sql := [embedded]\<rparr>)"
    using a t1 by (simp add: schema_path_def Getenv_def bare_world_def recorder_def)
  have B: "fst (NewDatabase (rejecting [embedded]) ascii_tables ''localhost'' ''user'' ''pass'' 5432 bare_world) =
     (None, Some (Err ''statement rejected''))"
    using b by (simp add: schema_path_def Getenv_def bare_world_def rejecting_def recorder_def)
  have C: "fst (NewDatabase recorder ascii_tables ''localhost'' ''user'' ''pass'' 5432 seed_on_world) =
     (None, Some (Err ''no such file or directory''))"
    using c t3 by (simp add: schema_path_def seed_path_def Getenv_def bare_world_def seed_on_world_def recorder_def)
  have D: "fst (NewDatabase (rejecting [seed_sql]) ascii_tables ''localhost'' ''user'' ''pass'' 5432 seed_file_world) =
     (None, Some (Err ''statement rejected''))"
    using d t4 embedded_neq_seed_sql
    by (simp add: schema_path_def seed_path_def Getenv_def bare_world_def seed_file_world_def
        rejecting_def recorder_def)
  show ?thesis
    using o1 p1 A B C D by simp
qed


text \<open>
  C9. \<open>Close\<close> and \<open>SeedFromFile\<close> are nil-safe no-ops: on a nil \<open>*Database\<close> and on a
  \<open>Database\<close> whose connection is nil each returns a nil error and leaves the world as it
  was: nothing is executed, and the list of files read does not grow, so \<open>SeedFromFile\<close>
  does not read the file at \<open>path\<close> (whether it is readable or not).
\<close>

theorem C9_nil_safe:
  "Close drv None w = (None, w) \<and>
   Close drv (Some \<lparr>conn = None\<rparr>) w = (None, w) \<and>
   SeedFromFile drv None path w = (None, w) \<and>
   SeedFromFile drv (Some \<lparr>conn = None\<rparr>) path w = (None, w)"
  by (simp add: Close_def SeedFromFile_def)

text \<open>
  C10. The constructor does not read \<open>host\<close>, \<open>user\<close>, \<open>password\<close> or \<open>port\<close>: two runs from
  the same world with any two argument tuples return the same result and leave the same
  world.
\<close>

theorem C10_NewDatabase_ignores_arguments:
  "NewDatabase drv T host1 user1 password1 port1 w =
   NewDatabase drv T host2 user2 password2 port2 w"
  by (simp add: NewDatabase_def)

end
